theory Spec2Isabelle
  imports Main "HOL-Library.Char_ord" "HOL-Library.List_Lexorder" "HOL-Library.Multiset"
begin

section \<open>DataFinder: folder registry and query engine\<close>

text \<open>
  A shallow embedding of \<^verbatim>\<open>src/datafinder/datafinder.py\<close> (class \<^verbatim>\<open>DataFinder\<close>).
  The object is a record that every method takes and returns; a raised exception is an
  error value returned together with the state the object has at that moment. What the
  class gets from outside the repository (directory tests and recursive globbing of
  \<^verbatim>\<open>pathlib\<close>, \<^verbatim>\<open>re.match\<close>, the sort behind \<^verbatim>\<open>DataFrame.sort_values\<close>) is a
  parameter, the record \<open>env\<close>.
\<close>

subsection \<open>Errors\<close>

text \<open>
  \<^verbatim>\<open>ValueError\<close> is what the specification calls a configuration error; \<^verbatim>\<open>ReError\<close>
  is \<^verbatim>\<open>re.error\<close>, its pattern error.
\<close>

datatype error =
  ValueError | TypeError | AttributeError | ZeroDivisionError | ReError | KeyError
  | IndexError | OSError

subsection \<open>Paths\<close>

text \<open>
  A \<^verbatim>\<open>pathlib.Path\<close> on a POSIX system: whether it is anchored at \<^verbatim>\<open>/\<close>, and its
  segments below the anchor (for a relative path, all its parts).
\<close>

datatype path = Path (is_absolute: bool) (segments: "string list")

text \<open>\<^verbatim>\<open>a / b\<close> for a relative \<open>b\<close> (the only use the class makes of it).\<close>

definition joinpath :: "path \<Rightarrow> path \<Rightarrow> path" where
  "joinpath a b = Path (is_absolute a) (segments a @ segments b)"

text \<open>\<^verbatim>\<open>p.relative_to(other).parts\<close>: raises \<^verbatim>\<open>ValueError\<close> unless \<open>other\<close> is a prefix.\<close>

definition relative_to :: "path \<Rightarrow> path \<Rightarrow> error + string list" where
  "relative_to p other =
     (if is_absolute p = is_absolute other
         \<and> take (length (segments other)) (segments p) = segments other
      then Inr (drop (length (segments other)) (segments p))
      else Inl ValueError)"

text \<open>\<^verbatim>\<open>p.name\<close>: the last segment, empty when there is none.\<close>

definition name :: "path \<Rightarrow> string" where
  "name p = (if segments p = [] then [] else last (segments p))"

text \<open>
  \<^verbatim>\<open>p.suffix\<close>: the name from its last dot on, when that dot is neither the first nor
  the last character of the name.
\<close>

definition rfind_dot :: "string \<Rightarrow> nat option" where
  "rfind_dot s =
     (case filter (\<lambda>i. s ! i = CHR ''.'') (rev [0..<length s]) of
        [] \<Rightarrow> None | i # _ \<Rightarrow> Some i)"

definition suffix :: "path \<Rightarrow> string" where
  "suffix p =
     (case rfind_dot (name p) of
        None \<Rightarrow> []
      | Some i \<Rightarrow> if 0 < i \<and> i + 1 < length (name p) then drop i (name p) else [])"

subsection \<open>The object and its surroundings\<close>

text \<open>
  \<^verbatim>\<open>self.root\<close> holds whatever \<^verbatim>\<open>set_root\<close> assigned last: a path, or the list it was
  called with. \<open>NoRoot\<close> is the attribute before any assignment
  (\<^verbatim>\<open>DataFinder(folders, root=None)\<close>).
\<close>

datatype root_val = NoRoot | RootPath path | RootList "path list"

record finder =
  root :: root_val
  folders :: "path list"

text \<open>The argument of \<^verbatim>\<open>set_root\<close>: one path, or a list of candidates.\<close>

datatype root_arg = Single path | Many "path list"

text \<open>
  A value \<^verbatim>\<open>regex_info\<close> holds at an index: one pattern, or a dict from label to
  pattern. Dicts are association lists in insertion order.
\<close>

datatype entry = Pattern string | Classifier "(string \<times> string) list"

text \<open>A cell of a row: a string, the file's path, \<^verbatim>\<open>None\<close>, or a missing value.\<close>

datatype cell = Str string | PathV path | NoneV | NaN

type_synonym row = "(string \<times> cell) list"

type_synonym groupdict = "(string \<times> string option) list"

text \<open>
  The platform. \<open>rglob folder pattern\<close> gives the files the generator yields, and the
  exception it ends with, if any. \<open>re_match pattern s\<close> is \<^verbatim>\<open>re.match\<close>:
  \<open>Inl ReError\<close> for a malformed pattern, \<open>Inr None\<close> for no match at the start of
  \<open>s\<close>, \<open>Inr (Some gd)\<close> for a match with \<^verbatim>\<open>groupdict()\<close> \<open>gd\<close>. \<open>argsort keys\<close> is
  the index permutation that the sort selected by \<^verbatim>\<open>sort_values\<close>' default
  \<^verbatim>\<open>kind="quicksort"\<close> computes for a column without missing values.
\<close>

record env =
  is_dir :: "path \<Rightarrow> bool"
  rglob :: "path \<Rightarrow> string \<Rightarrow> path list \<times> error option"
  re_match :: "string \<Rightarrow> string \<Rightarrow> error + groupdict option"
  argsort :: "cell list \<Rightarrow> nat list"

text \<open>What the class prints.\<close>

datatype line =
  Warning path
  | Searching string
  | InRoot root_val
  | Entering "string list"
  | Found "string list"
  | NoMatchRequired
  | MatchFound
  | NoMatchSkipping
  | NoFilesFound

subsection \<open>\<^verbatim>\<open>set_root\<close>\<close>

text \<open>
  Lines 31 to 41. In the list branch line 35 assigns the first valid candidate; line 41,
  which is outside the \<^verbatim>\<open>if\<close>, then assigns \<^verbatim>\<open>root\<close> itself, which in that branch
  is still the list.
\<close>

definition set_root :: "env \<Rightarrow> root_arg \<Rightarrow> finder \<Rightarrow> error option \<times> finder" where
  "set_root fs arg self =
     (case arg of
        Many rs \<Rightarrow>
          (let valid_roots = filter (is_dir fs) rs in
           if valid_roots = [] then (Some ValueError, self)
           else (None, (self\<lparr>root := RootPath (hd valid_roots)\<rparr>)\<lparr>root := RootList rs\<rparr>))
      | Single r \<Rightarrow>
          if \<not> is_dir fs r then (Some ValueError, self)
          else (None, self\<lparr>root := RootPath r\<rparr>))"

subsection \<open>\<^verbatim>\<open>add_folders\<close>\<close>

text \<open>
  Line 59, \<^verbatim>\<open>self.root / folder\<close>: an unset attribute raises \<^verbatim>\<open>AttributeError\<close>, a
  list on the left of \<^verbatim>\<open>/\<close> raises \<^verbatim>\<open>TypeError\<close>.
\<close>

definition resolve :: "root_val \<Rightarrow> path \<Rightarrow> error + path" where
  "resolve r folder =
     (if is_absolute folder then Inr folder
      else case r of
             NoRoot \<Rightarrow> Inl AttributeError
           | RootList _ \<Rightarrow> Inl TypeError
           | RootPath p \<Rightarrow> Inr (joinpath p folder))"

text \<open>The loop of lines 56 to 72, with the lines printed so far.\<close>

fun add_loop ::
  "env \<Rightarrow> bool \<Rightarrow> path list \<Rightarrow> finder \<Rightarrow> line list \<Rightarrow> error option \<times> finder \<times> line list"
where
  "add_loop fs strict [] self out = (None, self, out)"
| "add_loop fs strict (f # rest) self out =
     (case resolve (root self) f of
        Inl e \<Rightarrow> (Some e, self, out)
      | Inr folder \<Rightarrow>
          if \<not> is_dir fs folder then
            (if strict then (Some ValueError, self, out)
             else add_loop fs strict rest self (out @ [Warning folder]))
          else add_loop fs strict rest (self\<lparr>folders := folders self @ [folder]\<rparr>) out)"

definition add_folders ::
  "env \<Rightarrow> path list \<Rightarrow> root_arg option \<Rightarrow> bool \<Rightarrow> finder \<Rightarrow> error option \<times> finder \<times> line list"
where
  "add_folders fs fols root_opt strict self =
     (case root_opt of
        None \<Rightarrow> add_loop fs strict fols self []
      | Some r \<Rightarrow>
          (case set_root fs r self of
             (Some e, self') \<Rightarrow> (Some e, self', [])
           | (None, self') \<Rightarrow> add_loop fs strict fols self' []))"

text \<open>\<^verbatim>\<open>__init__\<close>: an empty folder list, then \<^verbatim>\<open>add_folders(folders, root)\<close>.\<close>

definition init :: "env \<Rightarrow> path list \<Rightarrow> root_arg option \<Rightarrow> error option \<times> finder \<times> line list" where
  "init fs fols root_opt = add_folders fs fols root_opt False \<lparr>root = NoRoot, folders = []\<rparr>"

subsection \<open>Dicts\<close>

text \<open>\<^verbatim>\<open>d[k] = v\<close>: an existing key keeps its place, a new key goes last.\<close>

primrec dict_set :: "('k \<times> 'v) list \<Rightarrow> 'k \<Rightarrow> 'v \<Rightarrow> ('k \<times> 'v) list" where
  "dict_set [] k v = [(k, v)]"
| "dict_set (p # d) k v = (if fst p = k then (k, v) # d else p # dict_set d k v)"

text \<open>\<^verbatim>\<open>row.update(m.groupdict())\<close>; a group that took no part in the match is \<^verbatim>\<open>None\<close>.\<close>

definition group_cell :: "string option \<Rightarrow> cell" where
  "group_cell v = (case v of None \<Rightarrow> NoneV | Some s \<Rightarrow> Str s)"

definition dict_update :: "row \<Rightarrow> groupdict \<Rightarrow> row" where
  "dict_update r gd = foldl (\<lambda>d kv. dict_set d (fst kv) (group_cell (snd kv))) r gd"

subsection \<open>\<^verbatim>\<open>query\<close>: one file\<close>

text \<open>
  Line 109, \<^verbatim>\<open>{i % len(parts) : reg for (i, reg) in regex_info.items()}\<close>. Python's
  \<^verbatim>\<open>%\<close> with a positive right operand is HOL's \<open>mod\<close> on \<open>int\<close>; with
  \<^verbatim>\<open>len(parts) == 0\<close> the first item raises \<^verbatim>\<open>ZeroDivisionError\<close>.
\<close>

definition regex_info_mod :: "nat \<Rightarrow> (int \<times> entry) list \<Rightarrow> error + (int \<times> entry) list" where
  "regex_info_mod n regex_info =
     (if regex_info \<noteq> [] \<and> n = 0 then Inl ZeroDivisionError
      else Inr (foldl (\<lambda>d ir. dict_set d (fst ir mod int n) (snd ir)) [] regex_info))"

text \<open>Lines 115 to 118: every (label, pattern) pair is tried; there is no \<^verbatim>\<open>break\<close>.\<close>

fun classify :: "env \<Rightarrow> (string \<times> string) list \<Rightarrow> string \<Rightarrow> row \<Rightarrow> error + row" where
  "classify fs [] part row = Inr row"
| "classify fs ((key, regex) # rest) part row =
     (case re_match fs regex part of
        Inl e \<Rightarrow> Inl e
      | Inr m \<Rightarrow> classify fs rest part (if m \<noteq> None then dict_set row ''info'' (Str key) else row))"

text \<open>Lines 112 to 125, the body of the loop over the parts, on the pair (row, keep).\<close>

definition visit ::
  "env \<Rightarrow> (int \<times> entry) list \<Rightarrow> bool \<Rightarrow> nat \<Rightarrow> string \<Rightarrow> row \<times> bool \<Rightarrow> error + row \<times> bool"
where
  "visit fs regex_info_mod' require_match i part rk =
     (case map_of regex_info_mod' (int i) of
        None \<Rightarrow> Inr rk
      | Some (Classifier c) \<Rightarrow>
          (case classify fs c part (fst rk) of
             Inl e \<Rightarrow> Inl e
           | Inr row' \<Rightarrow> Inr (row', snd rk))
      | Some (Pattern p) \<Rightarrow>
          (case re_match fs p part of
             Inl e \<Rightarrow> Inl e
           | Inr (Some gd) \<Rightarrow> Inr (dict_update (fst rk) gd, snd rk)
           | Inr None \<Rightarrow> Inr (fst rk, if require_match then False else snd rk)))"

text \<open>Line 110, \<^verbatim>\<open>for i, part in enumerate(reversed(parts))\<close>.\<close>

fun walk ::
  "env \<Rightarrow> (int \<times> entry) list \<Rightarrow> bool \<Rightarrow> (nat \<times> string) list \<Rightarrow> row \<times> bool \<Rightarrow> error + row \<times> bool"
where
  "walk fs m require_match [] rk = Inr rk"
| "walk fs m require_match ((i, part) # ps) rk =
     (case visit fs m require_match i part rk of
        Inl e \<Rightarrow> Inl e
      | Inr rk' \<Rightarrow> walk fs m require_match ps rk')"

text \<open>\<^verbatim>\<open>file.relative_to(self.root).parts\<close>, for whatever \<^verbatim>\<open>self.root\<close> holds.\<close>

definition relative_to_root :: "path \<Rightarrow> root_val \<Rightarrow> error + string list" where
  "relative_to_root p r =
     (case r of
        NoRoot \<Rightarrow> Inl AttributeError
      | RootList _ \<Rightarrow> Inl TypeError
      | RootPath other \<Rightarrow> relative_to p other)"

definition new_row :: "path \<Rightarrow> row" where
  "new_row file =
     [(''filename'', Str (name file)), (''path'', PathV file), (''suffix'', Str (suffix file))]"

text \<open>Lines 103 to 125 for one file: the row and its \<^verbatim>\<open>keep\<close> flag.\<close>

definition process_file ::
  "env \<Rightarrow> (int \<times> entry) list \<Rightarrow> bool \<Rightarrow> root_val \<Rightarrow> path \<Rightarrow> error + row \<times> bool"
where
  "process_file fs regex_info require_match r file =
     (case relative_to_root file r of
        Inl e \<Rightarrow> Inl e
      | Inr parts \<Rightarrow>
          (case regex_info_mod (length parts) regex_info of
             Inl e \<Rightarrow> Inl e
           | Inr m \<Rightarrow> walk fs m require_match (enumerate 0 (rev parts)) (new_row file, True)))"

subsection \<open>\<^verbatim>\<open>query\<close>: the loops over folders and files\<close>

text \<open>Lines 130 to 136.\<close>

definition verdict :: "bool \<Rightarrow> bool \<Rightarrow> bool \<Rightarrow> line list" where
  "verdict verbose keep require_match =
     (if verbose then
        (if \<not> keep \<and> \<not> require_match then [NoMatchRequired] else [])
        @ (if keep then [MatchFound] else [NoMatchSkipping])
      else [])"

text \<open>
  Lines 98 to 136 over the files one folder yields. With \<^verbatim>\<open>verbose\<close>, line 101 computes
  the relative path once more, before line 107 does.
\<close>

fun scan_files ::
  "env \<Rightarrow> (int \<times> entry) list \<Rightarrow> bool \<Rightarrow> bool \<Rightarrow> root_val \<Rightarrow> path list \<Rightarrow> row list \<Rightarrow> line list
     \<Rightarrow> (error + row list) \<times> line list"
where
  "scan_files fs regex_info require_match verbose r [] rows out = (Inr rows, out)"
| "scan_files fs regex_info require_match verbose r (file # files) rows out =
     (case (if verbose then relative_to_root file r else Inr []) of
        Inl e \<Rightarrow> (Inl e, out)
      | Inr rel \<Rightarrow>
          (let out1 = (if verbose then out @ [Found rel] else out) in
           case process_file fs regex_info require_match r file of
             Inl e \<Rightarrow> (Inl e, out1)
           | Inr (row, keep) \<Rightarrow>
               scan_files fs regex_info require_match verbose r files
                 (if keep then rows @ [row] else rows)
                 (out1 @ verdict verbose keep require_match)))"

text \<open>
  Lines 91 to 136. With \<^verbatim>\<open>verbose\<close>, line 94 computes the folder's path relative to the
  root before the folder is searched.
\<close>

fun scan_folders ::
  "env \<Rightarrow> string \<Rightarrow> (int \<times> entry) list \<Rightarrow> bool \<Rightarrow> bool \<Rightarrow> root_val \<Rightarrow> path list \<Rightarrow> row list
     \<Rightarrow> line list \<Rightarrow> (error + row list) \<times> line list"
where
  "scan_folders fs q regex_info require_match verbose r [] rows out = (Inr rows, out)"
| "scan_folders fs q regex_info require_match verbose r (folder # rest) rows out =
     (case (if verbose then relative_to_root folder r else Inr []) of
        Inl e \<Rightarrow> (Inl e, out)
      | Inr rel \<Rightarrow>
          (let out1 = (if verbose then out @ [Entering rel] else out) in
           case scan_files fs regex_info require_match verbose r (fst (rglob fs folder q)) rows out1 of
             (Inl e, out2) \<Rightarrow> (Inl e, out2)
           | (Inr rows', out2) \<Rightarrow>
               (case snd (rglob fs folder q) of
                  Some e \<Rightarrow> (Inl e, out2)
                | None \<Rightarrow> scan_folders fs q regex_info require_match verbose r rest rows' out2)))"

text \<open>Lines 85 to 136: the rows kept, or the exception raised on the way.\<close>

definition collect_rows ::
  "env \<Rightarrow> string \<Rightarrow> (int \<times> entry) list \<Rightarrow> bool \<Rightarrow> bool \<Rightarrow> finder \<Rightarrow> (error + row list) \<times> line list"
where
  "collect_rows fs q regex_info require_match verbose self =
     (if verbose \<and> root self = NoRoot then (Inl AttributeError, [Searching q])
      else scan_folders fs q regex_info require_match verbose (root self) (folders self) []
             (if verbose then [Searching q, InRoot (root self)] else []))"

subsection \<open>The table\<close>

text \<open>
  A \<^verbatim>\<open>DataFrame\<close>: its column names, its row index and its rows, each row holding a
  cell for every column.
\<close>

record dataframe =
  columns :: "string list"
  index :: "nat list"
  data :: "row list"

text \<open>\<^verbatim>\<open>pd.DataFrame()\<close>.\<close>

definition empty_frame :: dataframe where
  "empty_frame = \<lparr>columns = [], index = [], data = []\<rparr>"

text \<open>
  \<^verbatim>\<open>pd.DataFrame(rows)\<close> for a list of dicts: the columns are the keys in order of first
  appearance, a row without a key gets a missing value there.
\<close>

definition union_keys :: "row list \<Rightarrow> string list" where
  "union_keys rows = foldl (\<lambda>cs k. if k \<in> set cs then cs else cs @ [k]) [] (concat (map (map fst) rows))"

definition reindex :: "string list \<Rightarrow> row \<Rightarrow> row" where
  "reindex cols r = map (\<lambda>c. (c, case map_of r c of None \<Rightarrow> NaN | Some v \<Rightarrow> v)) cols"

definition DataFrame :: "row list \<Rightarrow> dataframe" where
  "DataFrame rows =
     \<lparr>columns = union_keys rows, index = [0..<length rows],
      data = map (reindex (union_keys rows)) rows\<rparr>"

definition isna :: "cell \<Rightarrow> bool" where
  "isna c = (c = NoneV \<or> c = NaN)"

definition cell_at :: "string \<Rightarrow> row \<Rightarrow> cell" where
  "cell_at by r = (case map_of r by of None \<Rightarrow> NaN | Some v \<Rightarrow> v)"

text \<open>
  \<^verbatim>\<open>df.sort_values(by=...)\<close> with its defaults (ascending, \<^verbatim>\<open>kind="quicksort"\<close>,
  \<^verbatim>\<open>na_position="last"\<close>): the rows without a missing key in the order \<open>argsort\<close>
  gives, then the rows with a missing key; each row keeps its index label. An index out of
  range raises \<^verbatim>\<open>IndexError\<close>.
\<close>

definition sort_values :: "env \<Rightarrow> string \<Rightarrow> dataframe \<Rightarrow> error + dataframe" where
  "sort_values fs by df =
     (if by \<notin> set (columns df) then Inl KeyError
      else
        (let labelled = zip (index df) (data df);
             non_nans = filter (\<lambda>lr. \<not> isna (cell_at by (snd lr))) labelled;
             nans = filter (\<lambda>lr. isna (cell_at by (snd lr))) labelled;
             indexer = argsort fs (map (\<lambda>lr. cell_at by (snd lr)) non_nans)
         in if \<exists>i \<in> set indexer. length non_nans \<le> i then Inl IndexError
            else
              (let sorted_rows = map (\<lambda>i. non_nans ! i) indexer @ nans
               in Inr (df\<lparr>index := map fst sorted_rows, data := map snd sorted_rows\<rparr>))))"

text \<open>\<^verbatim>\<open>df.reset_index(drop=True)\<close>.\<close>

definition reset_index :: "dataframe \<Rightarrow> dataframe" where
  "reset_index df = df\<lparr>index := [0..<length (data df)]\<rparr>"

subsection \<open>\<^verbatim>\<open>query\<close>\<close>

text \<open>Lines 138 to 145, after the loops; the object is returned as the call leaves it.\<close>

definition query ::
  "env \<Rightarrow> string \<Rightarrow> (int \<times> entry) list \<Rightarrow> bool \<Rightarrow> bool \<Rightarrow> finder
     \<Rightarrow> (error + dataframe) \<times> finder \<times> line list"
where
  "query fs q regex_info require_match verbose self =
     (case collect_rows fs q regex_info require_match verbose self of
        (Inl e, out) \<Rightarrow> (Inl e, self, out)
      | (Inr rows, out) \<Rightarrow>
          if length rows = 0 then
            (Inr empty_frame, self, if verbose then out @ [NoFilesFound] else out)
          else
            (case sort_values fs ''filename'' (DataFrame rows) of
               Inl e \<Rightarrow> (Inl e, self, out)
             | Inr df \<Rightarrow> (Inr (reset_index df), self, out)))"

subsection \<open>A concrete platform\<close>

text \<open>
  The directory tree of the repository's tests (\<^verbatim>\<open>tests/test_datafinder.py\<close>), under
  \<^verbatim>\<open>/data\<close>: \<^verbatim>\<open>/data/sub\<close> holds \<^verbatim>\<open>ABC123_type.tif\<close> and \<^verbatim>\<open>DEF456_other.tif\<close>.
  Beside it, \<^verbatim>\<open>/data/a\<close> and \<^verbatim>\<open>/data/b\<close> each hold a file \<^verbatim>\<open>x.tif\<close>,
  \<^verbatim>\<open>/data/p/q\<close> holds \<^verbatim>\<open>r.tif\<close>, and \<^verbatim>\<open>/other\<close> is a directory outside
  \<^verbatim>\<open>/data\<close> with no \<^verbatim>\<open>.tif\<close> file in it. \<^verbatim>\<open>/data/missing\<close> does not exist.
\<close>

definition data_dir :: path where "data_dir = Path True [''data'']"
definition sub_dir :: path where "sub_dir = Path True [''data'', ''sub'']"
definition a_dir :: path where "a_dir = Path True [''data'', ''a'']"
definition b_dir :: path where "b_dir = Path True [''data'', ''b'']"
definition p_dir :: path where "p_dir = Path True [''data'', ''p'']"
definition pq_dir :: path where "pq_dir = Path True [''data'', ''p'', ''q'']"
definition other_dir :: path where "other_dir = Path True [''other'']"
definition missing_dir :: path where "missing_dir = Path True [''data'', ''missing'']"

definition abc_file :: path where "abc_file = Path True [''data'', ''sub'', ''ABC123_type.tif'']"
definition def_file :: path where "def_file = Path True [''data'', ''sub'', ''DEF456_other.tif'']"
definition a_x_file :: path where "a_x_file = Path True [''data'', ''a'', ''x.tif'']"
definition b_x_file :: path where "b_x_file = Path True [''data'', ''b'', ''x.tif'']"
definition pqr_file :: path where "pqr_file = Path True [''data'', ''p'', ''q'', ''r.tif'']"

definition demo_is_dir :: "path \<Rightarrow> bool" where
  "demo_is_dir p = (p \<in> set [data_dir, sub_dir, a_dir, b_dir, p_dir, pq_dir, other_dir])"

definition demo_rglob :: "path \<Rightarrow> string \<Rightarrow> path list \<times> error option" where
  "demo_rglob folder q =
     (if q \<noteq> ''*.tif'' then ([], None)
      else if folder = sub_dir then ([abc_file, def_file], None)
      else if folder = a_dir then ([a_x_file], None)
      else if folder = b_dir then ([b_x_file], None)
      else if folder = p_dir \<or> folder = pq_dir then ([pqr_file], None)
      else if folder = data_dir then ([abc_file, def_file, a_x_file, b_x_file, pqr_file], None)
      else ([], None))"

text \<open>
  \<^verbatim>\<open>re.match\<close> on the patterns used below: \<^verbatim>\<open>(\<close> is malformed; a named group around
  literal text matches that text at the start of the string; a pattern of letters and
  digits only matches when the string starts with it, and has no groups.
\<close>

definition demo_match :: "string \<Rightarrow> string \<Rightarrow> error + groupdict option" where
  "demo_match pat s =
     (if pat = ''('' then Inl ReError
      else if pat = ''(?P<condition>ABC)'' then
        (if take 3 s = ''ABC'' then Inr (Some [(''condition'', Some ''ABC'')]) else Inr None)
      else if pat = ''(?P<folder>sub)'' then
        (if take 3 s = ''sub'' then Inr (Some [(''folder'', Some ''sub'')]) else Inr None)
      else if take (length pat) s = pat then Inr (Some [])
      else Inr None)"

text \<open>
  Two sorts of a column of strings, both ascending: a stable one, and one that leaves
  equal keys in the reverse of their input order.
\<close>

definition str_of :: "cell \<Rightarrow> string" where
  "str_of c = (case c of Str s \<Rightarrow> s | _ \<Rightarrow> [])"

definition stable_argsort :: "cell list \<Rightarrow> nat list" where
  "stable_argsort keys = map snd (sort_key fst (zip (map str_of keys) [0..<length keys]))"


definition demo_env :: env where
  "demo_env = \<lparr>is_dir = demo_is_dir, rglob = demo_rglob, re_match = demo_match,
               argsort = stable_argsort\<rparr>"


subsection \<open>Notions used in the statements\<close>

text \<open>
  The labels of a classifier whose pattern matches the segment, in the order of the
  classifier.
\<close>

definition matching_labels :: "env \<Rightarrow> (string \<times> string) list \<Rightarrow> string \<Rightarrow> string list" where
  "matching_labels fs c part =
     map fst (filter (\<lambda>kp. case re_match fs (snd kp) part of Inr (Some _) \<Rightarrow> True | _ \<Rightarrow> False) c)"

text \<open>The files the registered folders yield for a pattern, in the order the loops meet them.\<close>

definition matched_files :: "env \<Rightarrow> string \<Rightarrow> finder \<Rightarrow> path list" where
  "matched_files fs q self = concat (map (\<lambda>folder. fst (rglob fs folder q)) (folders self))"


text \<open>
  A position (index and segment) fails when its entry is a single pattern that does not
  match the segment.
\<close>

definition failed_match :: "env \<Rightarrow> (int \<times> entry) list \<Rightarrow> nat \<times> string \<Rightarrow> bool" where
  "failed_match fs m ip =
     (case map_of m (int (fst ip)) of
        Some (Pattern p) \<Rightarrow> re_match fs p (snd ip) = Inr None
      | _ \<Rightarrow> False)"

text \<open>
  What one position adds to a row: nothing without an entry, the label of a classifier,
  the named groups of a single pattern that matches, nothing for one that does not; and
  what all positions of a list add, one after the other, up to the first exception.
\<close>

definition contribute :: "env \<Rightarrow> (int \<times> entry) list \<Rightarrow> nat \<times> string \<Rightarrow> row \<Rightarrow> error + row" where
  "contribute fs m ip row =
     (case map_of m (int (fst ip)) of
        None \<Rightarrow> Inr row
      | Some (Classifier c) \<Rightarrow> classify fs c (snd ip) row
      | Some (Pattern p) \<Rightarrow>
          (case re_match fs p (snd ip) of
             Inl e \<Rightarrow> Inl e
           | Inr None \<Rightarrow> Inr row
           | Inr (Some gd) \<Rightarrow> Inr (dict_update row gd)))"

fun extract_fields :: "env \<Rightarrow> (int \<times> entry) list \<Rightarrow> (nat \<times> string) list \<Rightarrow> row \<Rightarrow> error + row" where
  "extract_fields fs m [] row = Inr row"
| "extract_fields fs m (ip # ps) row =
     (case contribute fs m ip row of
        Inl e \<Rightarrow> Inl e
      | Inr row' \<Rightarrow> extract_fields fs m ps row')"





section \<open>Properties\<close>

lemmas demo_defs = demo_env_def demo_is_dir_def demo_rglob_def demo_match_def
  data_dir_def sub_dir_def a_dir_def b_dir_def p_dir_def pq_dir_def other_dir_def missing_dir_def
  abc_file_def def_file_def a_x_file_def b_x_file_def pqr_file_def

lemmas query_defs = process_file_def relative_to_root_def relative_to_def regex_info_mod_def
  visit_def new_row_def name_def enumerate_eq_zip

subsection \<open>Configuring the root\<close>

text \<open>
  C1. The claim: after \<^verbatim>\<open>set_root\<close> on a list of candidates with an existing directory
  among them, the stored root is the first candidate that is an existing directory. The
  code differs: with the candidates \<^verbatim>\<open>/data/missing\<close>, \<^verbatim>\<open>/data\<close>, \<^verbatim>\<open>/data/sub\<close>, of
  which \<^verbatim>\<open>/data\<close> is the first existing directory, the call returns normally and the
  stored root is the whole list of candidates, not the path \<^verbatim>\<open>/data\<close>.
\<close>

theorem set_root_list_stores_list:
  "set_root demo_env (Many [missing_dir, data_dir, sub_dir]) \<lparr>root = NoRoot, folders = []\<rparr>
     = (None, \<lparr>root = RootList [missing_dir, data_dir, sub_dir], folders = []\<rparr>)
   \<and> filter (is_dir demo_env) [missing_dir, data_dir, sub_dir] = [data_dir, sub_dir]
   \<and> RootList [missing_dir, data_dir, sub_dir] \<noteq> RootPath data_dir"
  by (simp add: set_root_def demo_env_def demo_is_dir_def data_dir_def sub_dir_def missing_dir_def
      a_dir_def b_dir_def p_dir_def pq_dir_def other_dir_def)

text \<open>
  C9. A root configuration that fails leaves the object as it was: \<^verbatim>\<open>set_root\<close> on a
  single path that is not a directory, or on a list with no existing directory, raises
  \<^verbatim>\<open>ValueError\<close> and changes nothing; and \<^verbatim>\<open>add_folders\<close> called with such a root
  raises the same error, with the root and the folder list unchanged and nothing printed.
\<close>

theorem set_root_failure_keeps_state:
  "(\<not> is_dir fs r \<longrightarrow> set_root fs (Single r) self = (Some ValueError, self))
   \<and> ((\<forall>c\<in>set rs. \<not> is_dir fs c) \<longrightarrow> set_root fs (Many rs) self = (Some ValueError, self))
   \<and> (fst (set_root fs arg self) \<noteq> None \<longrightarrow>
        snd (set_root fs arg self) = self
        \<and> add_folders fs fols (Some arg) strict self = (fst (set_root fs arg self), self, []))"
  by (auto simp: set_root_def add_folders_def Let_def filter_empty_conv split: root_arg.splits if_splits)

theorem set_root_failure_keeps_state_witness:
  "\<not> is_dir demo_env missing_dir
   \<and> set_root demo_env (Single missing_dir) \<lparr>root = RootPath data_dir, folders = [sub_dir]\<rparr>
       = (Some ValueError, \<lparr>root = RootPath data_dir, folders = [sub_dir]\<rparr>)
   \<and> \<not> is_dir demo_env abc_file
   \<and> set_root demo_env (Many [missing_dir, abc_file]) \<lparr>root = RootPath data_dir, folders = [sub_dir]\<rparr>
       = (Some ValueError, \<lparr>root = RootPath data_dir, folders = [sub_dir]\<rparr>)
   \<and> fst (set_root demo_env (Many [missing_dir, abc_file]) \<lparr>root = RootPath data_dir, folders = [sub_dir]\<rparr>) \<noteq> None
   \<and> add_folders demo_env [a_dir] (Some (Many [missing_dir, abc_file])) True
         \<lparr>root = RootPath data_dir, folders = [sub_dir]\<rparr>
       = (Some ValueError, \<lparr>root = RootPath data_dir, folders = [sub_dir]\<rparr>, [])"
proof -
  let ?st = "\<lparr>root = RootPath data_dir, folders = [sub_dir]\<rparr>"
  have h1: "\<not> is_dir demo_env missing_dir"
    by (simp add: demo_env_def demo_is_dir_def data_dir_def sub_dir_def missing_dir_def
        a_dir_def b_dir_def p_dir_def pq_dir_def other_dir_def)
  have h2: "\<forall>c\<in>set [missing_dir, abc_file]. \<not> is_dir demo_env c"
    by (simp add: demo_env_def demo_is_dir_def data_dir_def sub_dir_def missing_dir_def
        a_dir_def b_dir_def p_dir_def pq_dir_def other_dir_def abc_file_def)
  note t = set_root_failure_keeps_state
    [of demo_env missing_dir ?st "[missing_dir, abc_file]" "Many [missing_dir, abc_file]" "[a_dir]" True]
  from t h1 have c1: "set_root demo_env (Single missing_dir) ?st = (Some ValueError, ?st)"
    by blast
  from t h2 have c2: "set_root demo_env (Many [missing_dir, abc_file]) ?st = (Some ValueError, ?st)"
    by blast
  then have h3: "fst (set_root demo_env (Many [missing_dir, abc_file]) ?st) \<noteq> None"
    by simp
  from t h3 have c3: "add_folders demo_env [a_dir] (Some (Many [missing_dir, abc_file])) True ?st
      = (fst (set_root demo_env (Many [missing_dir, abc_file]) ?st), ?st, [])"
    by blast
  show ?thesis using h1 h2 h3 c1 c2 c3 by simp
qed

subsection \<open>Registering folders\<close>

lemma add_loop_root: "root (fst (snd (add_loop fs strict ps self out))) = root self"
  by (induction fs strict ps self out rule: add_loop.induct) (auto split: sum.splits)

lemma add_loop_prefix:
  "map (resolve (root self)) pre = map Inr qs \<Longrightarrow> \<forall>q\<in>set qs. is_dir fs q \<Longrightarrow>
   add_loop fs strict (pre @ rest) self out
     = add_loop fs strict rest (self\<lparr>folders := folders self @ qs\<rparr>) out"
proof (induction pre arbitrary: qs self)
  case Nil
  then show ?case by simp
next
  case (Cons f pre)
  then obtain q qs' where qs: "qs = q # qs'" by (cases qs) auto
  with Cons.prems have r: "resolve (root self) f = Inr q" "is_dir fs q"
    and m: "map (resolve (root self)) pre = map Inr qs'" "\<forall>q\<in>set qs'. is_dir fs q"
    by auto
  have "add_loop fs strict (pre @ rest) (self\<lparr>folders := folders self @ [q]\<rparr>) out
      = add_loop fs strict rest (self\<lparr>folders := folders self @ [q]\<rparr>\<lparr>folders := folders (self\<lparr>folders := folders self @ [q]\<rparr>) @ qs'\<rparr>) out"
    using m by (intro Cons.IH) simp_all
  then show ?case using r qs by simp
qed

lemma add_loop_lenient:
  "map (resolve (root self)) ps = map Inr qs \<Longrightarrow>
   add_loop fs False ps self out
     = (None, self\<lparr>folders := folders self @ filter (is_dir fs) qs\<rparr>,
        out @ map Warning (filter (\<lambda>q. \<not> is_dir fs q) qs))"
proof (induction ps arbitrary: qs self out)
  case Nil
  then show ?case by simp
next
  case (Cons f ps)
  then obtain q qs' where qs: "qs = q # qs'" by (cases qs) auto
  with Cons.prems have r: "resolve (root self) f = Inr q"
    and m: "map (resolve (root self)) ps = map Inr qs'"
    by auto
  show ?case
  proof (cases "is_dir fs q")
    case True
    have "map (resolve (root (self\<lparr>folders := folders self @ [q]\<rparr>))) ps = map Inr qs'"
      using m by simp
    from Cons.IH[OF this] show ?thesis using r qs True by simp
  next
    case False
    from Cons.IH[OF m] show ?thesis using r qs False by simp
  qed
qed

text \<open>
  C6. Let \<open>self'\<close> be the object once the optional root argument has been applied. With
  \<^verbatim>\<open>strict=True\<close>: when the paths before \<open>p\<close> all resolve to existing directories and
  \<open>p\<close> resolves to something that is not one, the call raises \<^verbatim>\<open>ValueError\<close>, the
  folders of the earlier paths stay registered and none of the later paths is added. With
  \<^verbatim>\<open>strict=False\<close>: the call returns normally, exactly the resolved paths that are
  existing directories are appended, in order, and one warning is printed for each of the
  others, so that the paths after a missing one are still processed.
\<close>

theorem add_folders_missing_folder:
  assumes cfg: "root_opt = None \<and> self' = self
                \<or> (\<exists>a. root_opt = Some a \<and> set_root fs a self = (None, self'))"
  shows "(map (resolve (root self')) pre = map Inr qs \<and> (\<forall>q\<in>set qs. is_dir fs q)
            \<and> resolve (root self') p = Inr q' \<and> \<not> is_dir fs q'
          \<longrightarrow> add_folders fs (pre @ p # post) root_opt True self
                = (Some ValueError, self'\<lparr>folders := folders self' @ qs\<rparr>, []))
       \<and> (map (resolve (root self')) ps = map Inr rs
          \<longrightarrow> add_folders fs ps root_opt False self
                = (None, self'\<lparr>folders := folders self' @ filter (is_dir fs) rs\<rparr>,
                   map Warning (filter (\<lambda>q. \<not> is_dir fs q) rs)))"
proof -
  have start: "add_folders fs xs root_opt strict self = add_loop fs strict xs self' []" for xs strict
    using cfg by (auto simp: add_folders_def)
  show ?thesis
  proof (intro conjI impI)
    assume h: "map (resolve (root self')) pre = map Inr qs \<and> (\<forall>q\<in>set qs. is_dir fs q)
            \<and> resolve (root self') p = Inr q' \<and> \<not> is_dir fs q'"
    then have "add_loop fs True (pre @ p # post) self' []
        = add_loop fs True (p # post) (self'\<lparr>folders := folders self' @ qs\<rparr>) []"
      by (intro add_loop_prefix) auto
    then show "add_folders fs (pre @ p # post) root_opt True self
                = (Some ValueError, self'\<lparr>folders := folders self' @ qs\<rparr>, [])"
      using h by (simp add: start)
  next
    assume "map (resolve (root self')) ps = map Inr rs"
    from add_loop_lenient[OF this, of fs "[]"]
    show "add_folders fs ps root_opt False self
                = (None, self'\<lparr>folders := folders self' @ filter (is_dir fs) rs\<rparr>,
                   map Warning (filter (\<lambda>q. \<not> is_dir fs q) rs))"
      by (simp add: start)
  qed
qed

theorem add_folders_missing_folder_witness:
  "(None = (None :: root_arg option)
      \<and> \<lparr>root = RootPath data_dir, folders = [b_dir]\<rparr> = \<lparr>root = RootPath data_dir, folders = [b_dir]\<rparr>)
   \<and> map (resolve (RootPath data_dir)) [Path False [''sub'']] = map Inr [sub_dir]
   \<and> is_dir demo_env sub_dir
   \<and> resolve (RootPath data_dir) (Path False [''missing'']) = Inr missing_dir
   \<and> \<not> is_dir demo_env missing_dir
   \<and> add_folders demo_env [Path False [''sub''], Path False [''missing''], a_dir] None True
         \<lparr>root = RootPath data_dir, folders = [b_dir]\<rparr>
       = (Some ValueError, \<lparr>root = RootPath data_dir, folders = [b_dir, sub_dir]\<rparr>, [])
   \<and> map (resolve (RootPath data_dir)) [Path False [''sub''], Path False [''missing''], a_dir]
       = map Inr [sub_dir, missing_dir, a_dir]
   \<and> add_folders demo_env [Path False [''sub''], Path False [''missing''], a_dir] None False
         \<lparr>root = RootPath data_dir, folders = [b_dir]\<rparr>
       = (None, \<lparr>root = RootPath data_dir, folders = [b_dir, sub_dir, a_dir]\<rparr>,
          [Warning missing_dir])"
proof -
  let ?st = "\<lparr>root = RootPath data_dir, folders = [b_dir]\<rparr>"
  have dirs: "is_dir demo_env sub_dir" "is_dir demo_env a_dir" "\<not> is_dir demo_env missing_dir"
    by (simp_all add: demo_env_def demo_is_dir_def data_dir_def sub_dir_def missing_dir_def
        a_dir_def b_dir_def p_dir_def pq_dir_def other_dir_def)
  have res: "resolve (RootPath data_dir) (Path False [''sub'']) = Inr sub_dir"
    "resolve (RootPath data_dir) (Path False [''missing'']) = Inr missing_dir"
    "resolve (RootPath data_dir) a_dir = Inr a_dir"
    by (simp_all add: resolve_def joinpath_def data_dir_def sub_dir_def missing_dir_def a_dir_def)
  have cfg: "None = (None :: root_arg option) \<and> ?st = ?st
             \<or> (\<exists>a. None = Some a \<and> set_root demo_env a ?st = (None, ?st))"
    by simp
  note t = add_folders_missing_folder
    [OF cfg, of "[Path False [''sub'']]" "[sub_dir]" "Path False [''missing'']" missing_dir "[a_dir]"
       "[Path False [''sub''], Path False [''missing''], a_dir]" "[sub_dir, missing_dir, a_dir]"]
  from t dirs res
  have c1: "add_folders demo_env ([Path False [''sub'']] @ Path False [''missing''] # [a_dir]) None True ?st
      = (Some ValueError, ?st\<lparr>folders := folders ?st @ [sub_dir]\<rparr>, [])"
    by simp
  from t dirs res
  have c2: "add_folders demo_env [Path False [''sub''], Path False [''missing''], a_dir] None False ?st
      = (None, ?st\<lparr>folders := folders ?st @ filter (is_dir demo_env) [sub_dir, missing_dir, a_dir]\<rparr>,
         map Warning (filter (\<lambda>q. \<not> is_dir demo_env q) [sub_dir, missing_dir, a_dir]))"
    by simp
  show ?thesis using dirs res c1 c2 by simp
qed

subsection \<open>The query and the object\<close>

text \<open>
  C10. \<^verbatim>\<open>query\<close> leaves the object as it found it, root and folder list alike, whether it
  returns a table or raises.
\<close>

theorem query_keeps_state: "fst (snd (query fs q regex_info require_match verbose self)) = self"
  by (simp add: query_def split: prod.splits sum.splits)

text \<open>
  C3. The claim: \<^verbatim>\<open>verbose\<close> has no effect on what \<^verbatim>\<open>query\<close> returns. The code
  differs: with the root \<^verbatim>\<open>/data\<close> and the registered folder \<^verbatim>\<open>/other\<close> (absolute, an
  existing directory outside the root, which the constructor accepts), in which no file
  matches, the call with \<^verbatim>\<open>verbose=False\<close> returns the empty table and the call with
  \<^verbatim>\<open>verbose=True\<close> raises \<^verbatim>\<open>ValueError\<close>, from \<^verbatim>\<open>folder.relative_to(self.root)\<close> on
  line 94.
\<close>

theorem query_verbose_changes_outcome:
  "init demo_env [other_dir] (Some (Single data_dir))
     = (None, \<lparr>root = RootPath data_dir, folders = [other_dir]\<rparr>, [])
   \<and> fst (query demo_env ''*.tif'' [] True True \<lparr>root = RootPath data_dir, folders = [other_dir]\<rparr>)
       = Inl ValueError
   \<and> fst (query demo_env ''*.tif'' [] True False \<lparr>root = RootPath data_dir, folders = [other_dir]\<rparr>)
       = Inr empty_frame"
  by (simp add: init_def add_folders_def set_root_def resolve_def query_def collect_rows_def
      relative_to_root_def relative_to_def demo_defs)

subsection \<open>Positions of one file\<close>


lemma dict_set_twice: "dict_set (dict_set d k v) k w = dict_set d k w"
  by (induction d) auto



lemma classify_last:
  "\<forall>kp\<in>set c. \<exists>res. re_match fs (snd kp) part = Inr res \<Longrightarrow>
   classify fs c part row
     = Inr (if matching_labels fs c part = [] then row
            else dict_set row ''info'' (Str (last (matching_labels fs c part))))"
proof (induction c arbitrary: row)
  case Nil
  then show ?case by (simp add: matching_labels_def)
next
  case (Cons kp c)
  obtain key regex where kp: "kp = (key, regex)" by (cases kp)
  from Cons.prems kp obtain res where res: "re_match fs regex part = Inr res" by auto
  from Cons.prems have rest: "\<forall>kp\<in>set c. \<exists>res. re_match fs (snd kp) part = Inr res" by simp
  show ?case
  proof (cases res)
    case None
    then have "matching_labels fs ((key, regex) # c) part = matching_labels fs c part"
      using res by (simp add: matching_labels_def)
    then show ?thesis using Cons.IH[OF rest, of row] kp res None by simp
  next
    case (Some gd)
    then have ml: "matching_labels fs ((key, regex) # c) part = key # matching_labels fs c part"
      using res by (simp add: matching_labels_def)
    show ?thesis
      using Cons.IH[OF rest, of "dict_set row ''info'' (Str key)"] kp res Some
      by (simp add: ml dict_set_twice)
  qed
qed

text \<open>
  C2, as the code has it. At a classifier position whose patterns are all well-formed,
  every (label, pattern) pair is tried, in mapping order and without stopping at a match:
  when at least one pattern matches the segment at its start, \<^verbatim>\<open>info\<close> becomes the label
  of the last matching pattern; when none matches, the row is unchanged. In both cases
  the \<^verbatim>\<open>keep\<close> flag is unchanged.
\<close>

theorem classifier_last_match_wins:
  assumes "map_of m (int i) = Some (Classifier c)"
    and "\<forall>kp\<in>set c. \<exists>res. re_match fs (snd kp) part = Inr res"
  shows "visit fs m require_match i part (row, keep)
           = Inr (if matching_labels fs c part = [] then row
                  else dict_set row ''info'' (Str (last (matching_labels fs c part))),
                  keep)"
  using assms(1) classify_last[OF assms(2), of row] by (simp add: visit_def)

theorem classifier_last_match_wins_witness:
  "map_of [(0, Classifier [(''typeA'', ''A''), (''typeB'', ''AB''), (''typeC'', ''X'')])] (int 0)
     = Some (Classifier [(''typeA'', ''A''), (''typeB'', ''AB''), (''typeC'', ''X'')])
   \<and> re_match demo_env ''A'' ''ABC123_type.tif'' = Inr (Some [])
   \<and> re_match demo_env ''AB'' ''ABC123_type.tif'' = Inr (Some [])
   \<and> re_match demo_env ''X'' ''ABC123_type.tif'' = Inr None
   \<and> visit demo_env [(0, Classifier [(''typeA'', ''A''), (''typeB'', ''AB''), (''typeC'', ''X'')])]
         True 0 ''ABC123_type.tif'' (new_row abc_file, True)
       = Inr (new_row abc_file @ [(''info'', Str ''typeB'')], True)
   \<and> visit demo_env [(0, Classifier [(''typeA'', ''A''), (''typeB'', ''AB''), (''typeC'', ''X'')])]
         True 0 ''DEF456_other.tif'' (new_row def_file, True)
       = Inr (new_row def_file, True)"
proof -
  let ?c = "[(''typeA'', ''A''), (''typeB'', ''AB''), (''typeC'', ''X'')]"
  have h1: "map_of [(0, Classifier ?c)] (int 0) = Some (Classifier ?c)" by simp
  have m: "re_match demo_env ''A'' ''ABC123_type.tif'' = Inr (Some [])"
    "re_match demo_env ''AB'' ''ABC123_type.tif'' = Inr (Some [])"
    "re_match demo_env ''X'' ''ABC123_type.tif'' = Inr None"
    "re_match demo_env ''A'' ''DEF456_other.tif'' = Inr None"
    "re_match demo_env ''AB'' ''DEF456_other.tif'' = Inr None"
    "re_match demo_env ''X'' ''DEF456_other.tif'' = Inr None"
    by (simp_all add: demo_env_def demo_match_def)
  have h2: "\<forall>kp\<in>set ?c. \<exists>res. re_match demo_env (snd kp) ''ABC123_type.tif'' = Inr res"
    and h3: "\<forall>kp\<in>set ?c. \<exists>res. re_match demo_env (snd kp) ''DEF456_other.tif'' = Inr res"
    using m by simp_all
  have l1: "matching_labels demo_env ?c ''ABC123_type.tif'' = [''typeA'', ''typeB'']"
    and l2: "matching_labels demo_env ?c ''DEF456_other.tif'' = []"
    using m by (simp_all add: matching_labels_def)
  have c1: "visit demo_env [(0, Classifier ?c)] True 0 ''ABC123_type.tif'' (new_row abc_file, True)
      = Inr (new_row abc_file @ [(''info'', Str ''typeB'')], True)"
    using classifier_last_match_wins[OF h1 h2, of True "new_row abc_file" True]
    by (simp add: l1 new_row_def)
  have c2: "visit demo_env [(0, Classifier ?c)] True 0 ''DEF456_other.tif'' (new_row def_file, True)
      = Inr (new_row def_file, True)"
    using classifier_last_match_wins[OF h1 h3, of True "new_row def_file" True]
    by (simp add: l2)
  show ?thesis using h1 m c1 c2 by simp
qed

text \<open>
  C2, as the claim states it, fails: with the classifier \<^verbatim>\<open>{"typeA": "A", "typeB": "AB"}\<close>
  at position 0 and the file \<^verbatim>\<open>ABC123_type.tif\<close>, the first pattern matches the file
  name, and the row's \<^verbatim>\<open>info\<close> is \<^verbatim>\<open>typeB\<close>, not \<^verbatim>\<open>typeA\<close>.
\<close>

theorem classifier_first_match_counterexample:
  "process_file demo_env [(0, Classifier [(''typeA'', ''A''), (''typeB'', ''AB'')])] True
      (RootPath data_dir) abc_file
     = Inr (new_row abc_file @ [(''info'', Str ''typeB'')], True)
   \<and> re_match demo_env ''A'' (name abc_file) = Inr (Some [])
   \<and> Str ''typeB'' \<noteq> Str ''typeA''"
  by (simp add: demo_defs query_defs)

text \<open>
  The row and the \<^verbatim>\<open>keep\<close> flag of a walk are computed independently of each other.
\<close>

lemma visit_contribute:
  "visit fs m require_match i part (row, keep)
     = (case contribute fs m (i, part) row of
          Inl e \<Rightarrow> Inl e
        | Inr row' \<Rightarrow> Inr (row', keep \<and> \<not> (require_match \<and> failed_match fs m (i, part))))"
  by (auto simp: visit_def contribute_def failed_match_def
      split: option.splits entry.splits sum.splits)

lemma walk_extract:
  "walk fs m require_match ps (row, keep)
     = (case extract_fields fs m ps row of
          Inl e \<Rightarrow> Inl e
        | Inr row' \<Rightarrow> Inr (row', keep \<and> \<not> (require_match \<and> list_ex (failed_match fs m) ps)))"
proof (induction ps arbitrary: row keep)
  case Nil
  then show ?case by simp
next
  case (Cons ip ps)
  obtain i part where ip: "ip = (i, part)" by (cases ip)
  show ?case
  proof (cases "contribute fs m (i, part) row")
    case (Inl e)
    then show ?thesis by (simp add: ip visit_contribute)
  next
    case (Inr row1)
    show ?thesis
    proof (cases "extract_fields fs m ps row1")
      case (Inl e)
      with Inr show ?thesis by (simp add: ip visit_contribute Cons.IH)
    next
      case r: (Inr row2)
      with Inr show ?thesis by (auto simp: ip visit_contribute Cons.IH)
    qed
  qed
qed



subsection \<open>The loops over folders and files\<close>

lemma scan_files_results:
  "fst (scan_files fs regex_info require_match verbose r fls rows out) = Inr rows' \<Longrightarrow>
   \<exists>results. map (process_file fs regex_info require_match r) fls = map Inr results
      \<and> rows' = rows @ map fst (filter snd results)"
proof (induction fls arbitrary: rows out)
  case Nil
  then show ?case by simp
next
  case (Cons f fls)
  show ?case
  proof (cases "process_file fs regex_info require_match r f")
    case (Inl e)
    with Cons.prems show ?thesis by (simp add: Let_def split: sum.splits)
  next
    case (Inr rk)
    obtain row keep where rk: "rk = (row, keep)" by (cases rk)
    from Cons.prems Inr rk obtain out1 where
      "fst (scan_files fs regex_info require_match verbose r fls
              (if keep then rows @ [row] else rows) out1) = Inr rows'"
      by (simp add: Let_def split: sum.splits)
    from Cons.IH[OF this] obtain results where
      m: "map (process_file fs regex_info require_match r) fls = map Inr results"
      and r: "rows' = (if keep then rows @ [row] else rows) @ map fst (filter snd results)"
      by blast
    have "map (process_file fs regex_info require_match r) (f # fls) = map Inr ((row, keep) # results)"
      using m Inr rk by simp
    moreover have "rows' = rows @ map fst (filter snd ((row, keep) # results))"
      using r by simp
    ultimately show ?thesis by blast
  qed
qed

lemma scan_folders_results:
  "fst (scan_folders fs q regex_info require_match verbose r fols rows out) = Inr rows' \<Longrightarrow>
   \<exists>results. map (process_file fs regex_info require_match r)
                (concat (map (\<lambda>folder. fst (rglob fs folder q)) fols)) = map Inr results
      \<and> rows' = rows @ map fst (filter snd results)"
proof (induction fols arbitrary: rows out)
  case Nil
  then show ?case by simp
next
  case (Cons folder fols)
  define out1 where "out1 = (case (if verbose then relative_to_root folder r else Inr []) of
      Inl e \<Rightarrow> out | Inr rel \<Rightarrow> if verbose then out @ [Entering rel] else out)"
  obtain res out2 where sf:
    "scan_files fs regex_info require_match verbose r (fst (rglob fs folder q)) rows out1 = (res, out2)"
    by (cases "scan_files fs regex_info require_match verbose r (fst (rglob fs folder q)) rows out1")
  show ?case
  proof (cases res)
    case (Inl e)
    with Cons.prems sf show ?thesis
      by (simp add: Let_def out1_def split: sum.splits)
  next
    case (Inr rows1)
    from scan_files_results[of fs regex_info require_match verbose r "fst (rglob fs folder q)" rows out1 rows1]
      sf Inr
    obtain res1 where
      m1: "map (process_file fs regex_info require_match r) (fst (rglob fs folder q)) = map Inr res1"
      and r1: "rows1 = rows @ map fst (filter snd res1)"
      by auto
    from Cons.prems sf Inr have
      "fst (scan_folders fs q regex_info require_match verbose r fols rows1 out2) = Inr rows'"
      by (simp add: Let_def out1_def split: sum.splits option.splits)
    from Cons.IH[OF this] obtain res2 where
      m2: "map (process_file fs regex_info require_match r)
             (concat (map (\<lambda>folder. fst (rglob fs folder q)) fols)) = map Inr res2"
      and r2: "rows' = rows1 @ map fst (filter snd res2)"
      by blast
    have "map (process_file fs regex_info require_match r)
            (concat (map (\<lambda>folder. fst (rglob fs folder q)) (folder # fols))) = map Inr (res1 @ res2)"
      using m1 m2 by simp
    moreover have "rows' = rows @ map fst (filter snd (res1 @ res2))"
      using r1 r2 by simp
    ultimately show ?thesis by blast
  qed
qed

lemma collect_rows_results:
  assumes "fst (collect_rows fs q regex_info require_match verbose self) = Inr rows"
  shows "\<exists>results. map (process_file fs regex_info require_match (root self)) (matched_files fs q self)
                     = map Inr results
           \<and> rows = map fst (filter snd results)"
  using assms
    scan_folders_results[of fs q regex_info require_match verbose "root self" "folders self" "[]" _ rows]
  by (simp add: collect_rows_def matched_files_def split: if_splits)




text \<open>
  C8. A single pattern that does not match its segment adds nothing to the row and, with
  \<^verbatim>\<open>require_match=True\<close>, clears \<^verbatim>\<open>keep\<close>; the walk does not stop there. The row a
  walk ends with is what all its positions contribute, one after the other, whether or
  not an earlier position has failed, and an exception of a later position is raised all
  the same. The flag ends false exactly when it was false before, or
  \<^verbatim>\<open>require_match\<close> is true and some single-pattern position has failed; with
  \<^verbatim>\<open>require_match=False\<close> it never changes. So it is for each file, whose walk starts
  with the fresh row and \<^verbatim>\<open>keep\<close> true and visits every segment of the relative path;
  and in a call that returns, the rows are those of the files whose flag ended true, in
  the order of the files.
\<close>

theorem failed_match_no_short_circuit:
  "walk fs m require_match ps (row, keep)
     = (case extract_fields fs m ps row of
          Inl e \<Rightarrow> Inl e
        | Inr row' \<Rightarrow> Inr (row', keep \<and> \<not> (require_match \<and> list_ex (failed_match fs m) ps)))
   \<and> process_file fs regex_info require_match r file
     = (case relative_to_root file r of
          Inl e \<Rightarrow> Inl e
        | Inr parts \<Rightarrow>
            (case regex_info_mod (length parts) regex_info of
               Inl e \<Rightarrow> Inl e
             | Inr m' \<Rightarrow>
                 (case extract_fields fs m' (enumerate 0 (rev parts)) (new_row file) of
                    Inl e \<Rightarrow> Inl e
                  | Inr row' \<Rightarrow>
                      Inr (row', \<not> (require_match
                                     \<and> list_ex (failed_match fs m') (enumerate 0 (rev parts)))))))
   \<and> (fst (collect_rows fs q regex_info require_match verbose self) = Inr rows \<longrightarrow>
        (\<exists>results.
           map (process_file fs regex_info require_match (root self)) (matched_files fs q self)
             = map Inr results
           \<and> rows = map fst (filter snd results)))"
proof (intro conjI impI)
  show "walk fs m require_match ps (row, keep)
     = (case extract_fields fs m ps row of
          Inl e \<Rightarrow> Inl e
        | Inr row' \<Rightarrow> Inr (row', keep \<and> \<not> (require_match \<and> list_ex (failed_match fs m) ps)))"
    by (rule walk_extract)
next
  show "process_file fs regex_info require_match r file
     = (case relative_to_root file r of
          Inl e \<Rightarrow> Inl e
        | Inr parts \<Rightarrow>
            (case regex_info_mod (length parts) regex_info of
               Inl e \<Rightarrow> Inl e
             | Inr m' \<Rightarrow>
                 (case extract_fields fs m' (enumerate 0 (rev parts)) (new_row file) of
                    Inl e \<Rightarrow> Inl e
                  | Inr row' \<Rightarrow>
                      Inr (row', \<not> (require_match
                                     \<and> list_ex (failed_match fs m') (enumerate 0 (rev parts)))))))"
    by (simp add: process_file_def walk_extract split: sum.splits)
next
  assume "fst (collect_rows fs q regex_info require_match verbose self) = Inr rows"
  then show "\<exists>results.
           map (process_file fs regex_info require_match (root self)) (matched_files fs q self)
             = map Inr results
           \<and> rows = map fst (filter snd results)"
    by (rule collect_rows_results)
qed


theorem failed_match_no_short_circuit_witness:
  "walk demo_env [(0, Pattern ''(?P<condition>ABC)''), (1, Pattern ''(?P<folder>sub)'')] True
       [(0, ''DEF456_other.tif''), (1, ''sub'')] (new_row def_file, True)
     = Inr (new_row def_file @ [(''folder'', Str ''sub'')], False)
   \<and> process_file demo_env [(0, Pattern ''(?P<condition>ABC)''), (1, Pattern ''(?P<folder>sub)'')]
         True (RootPath data_dir) def_file
       = Inr (new_row def_file @ [(''folder'', Str ''sub'')], False)
   \<and> process_file demo_env [(0, Pattern ''(?P<condition>ABC)''), (1, Pattern ''(?P<folder>sub)'')]
         False (RootPath data_dir) def_file
       = Inr (new_row def_file @ [(''folder'', Str ''sub'')], True)
   \<and> process_file demo_env [(0, Pattern ''XYZ''), (1, Pattern ''('')] True (RootPath data_dir) def_file
       = Inl ReError
   \<and> fst (collect_rows demo_env ''*.tif''
            [(0, Pattern ''(?P<condition>ABC)''), (1, Pattern ''(?P<folder>sub)'')] True False
            \<lparr>root = RootPath data_dir, folders = [sub_dir]\<rparr>)
       = Inr [new_row abc_file @ [(''condition'', Str ''ABC''), (''folder'', Str ''sub'')]]
   \<and> (\<exists>results.
         map (process_file demo_env
                [(0, Pattern ''(?P<condition>ABC)''), (1, Pattern ''(?P<folder>sub)'')] True
                (RootPath data_dir))
             (matched_files demo_env ''*.tif'' \<lparr>root = RootPath data_dir, folders = [sub_dir]\<rparr>)
           = map Inr results
         \<and> [new_row abc_file @ [(''condition'', Str ''ABC''), (''folder'', Str ''sub'')]]
             = map fst (filter snd results))"
proof -
  let ?m = "[(0, Pattern ''(?P<condition>ABC)''), (1, Pattern ''(?P<folder>sub)'')]"
  let ?bad = "[(0, Pattern ''XYZ''), (1, Pattern ''('')]"
  let ?ps = "[(0, ''DEF456_other.tif''), (1, ''sub'')]"
  let ?st = "\<lparr>root = RootPath data_dir, folders = [sub_dir]\<rparr>"
  let ?rows = "[new_row abc_file @ [(''condition'', Str ''ABC''), (''folder'', Str ''sub'')]]"
  have e1: "extract_fields demo_env ?m ?ps (new_row def_file)
      = Inr (new_row def_file @ [(''folder'', Str ''sub'')])"
    by (simp add: contribute_def demo_env_def demo_match_def dict_update_def group_cell_def new_row_def)
  have f1: "list_ex (failed_match demo_env ?m) ?ps"
    by (simp add: failed_match_def demo_env_def demo_match_def)
  have e2: "extract_fields demo_env ?bad ?ps (new_row def_file) = Inl ReError"
    by (simp add: contribute_def demo_env_def demo_match_def)
  have p: "relative_to_root def_file (RootPath data_dir) = Inr [''sub'', ''DEF456_other.tif'']"
    by (simp add: relative_to_root_def relative_to_def demo_defs)
  have n: "regex_info_mod (length [''sub'', ''DEF456_other.tif'']) ?m = Inr ?m"
    "regex_info_mod (length [''sub'', ''DEF456_other.tif'']) ?bad = Inr ?bad"
    by (simp_all add: regex_info_mod_def)
  have en: "enumerate 0 (rev [''sub'', ''DEF456_other.tif'']) = ?ps"
    by (simp add: enumerate_eq_zip)
  have h: "fst (collect_rows demo_env ''*.tif'' ?m True False ?st) = Inr ?rows"
    by (simp add: collect_rows_def verdict_def dict_update_def group_cell_def demo_defs query_defs)
  note t1 = failed_match_no_short_circuit
    [of demo_env ?m True ?ps "new_row def_file" True ?m "RootPath data_dir" def_file
        "''*.tif''" False ?st ?rows]
  note t2 = failed_match_no_short_circuit
    [of demo_env ?m False ?ps "new_row def_file" True ?m "RootPath data_dir" def_file
        "''*.tif''" False ?st ?rows]
  note t3 = failed_match_no_short_circuit
    [of demo_env ?bad True ?ps "new_row def_file" True ?bad "RootPath data_dir" def_file
        "''*.tif''" False ?st ?rows]
  from t1 have w1: "walk demo_env ?m True ?ps (new_row def_file, True)
      = Inr (new_row def_file @ [(''folder'', Str ''sub'')], False)"
    unfolding e1 using f1 by simp
  from t1 have p1: "process_file demo_env ?m True (RootPath data_dir) def_file
      = Inr (new_row def_file @ [(''folder'', Str ''sub'')], False)"
    unfolding p sum.case n en e1 using f1 by simp
  from t2 have p2: "process_file demo_env ?m False (RootPath data_dir) def_file
      = Inr (new_row def_file @ [(''folder'', Str ''sub'')], True)"
    unfolding p sum.case n en e1 by simp
  from t3 have p3: "process_file demo_env ?bad True (RootPath data_dir) def_file = Inl ReError"
    unfolding p sum.case n en e2 by simp
  from t1 h have c: "\<exists>results.
         map (process_file demo_env ?m True (RootPath data_dir)) (matched_files demo_env ''*.tif'' ?st)
           = map Inr results
         \<and> ?rows = map fst (filter snd results)"
    by simp
  from w1 p1 p2 p3 h c show ?thesis by (intro conjI)
qed

subsection \<open>Queries that find no file\<close>

lemma scan_folders_no_files:
  "\<forall>folder\<in>set fols. rglob fs folder q = ([], None)
      \<and> (verbose \<longrightarrow> (\<exists>rel. relative_to_root folder r = Inr rel)) \<Longrightarrow>
   fst (scan_folders fs q regex_info require_match verbose r fols rows out) = Inr rows"
proof (induction fols arbitrary: out)
  case Nil
  then show ?case by simp
next
  case (Cons folder fols)
  from Cons.prems have g: "rglob fs folder q = ([], None)"
    and v: "verbose \<longrightarrow> (\<exists>rel. relative_to_root folder r = Inr rel)"
    and rest: "\<forall>folder\<in>set fols. rglob fs folder q = ([], None)
      \<and> (verbose \<longrightarrow> (\<exists>rel. relative_to_root folder r = Inr rel))"
    by simp_all
  show ?case
  proof (cases verbose)
    case True
    with v obtain rel where "relative_to_root folder r = Inr rel" by blast
    then show ?thesis using True g Cons.IH[OF rest] by simp
  next
    case False
    then show ?thesis using g Cons.IH[OF rest] by simp
  qed
qed

text \<open>
  Without \<^verbatim>\<open>verbose\<close>, or when the root is set and every folder lies under it, a query
  whose pattern matches no file returns the empty table.
\<close>

lemma query_no_files:
  assumes "\<forall>folder\<in>set (folders self). rglob fs folder q = ([], None)"
    and "verbose \<longrightarrow> root self \<noteq> NoRoot
           \<and> (\<forall>folder\<in>set (folders self). \<exists>rel. relative_to_root folder (root self) = Inr rel)"
  shows "fst (query fs q regex_info require_match verbose self) = Inr empty_frame"
proof -
  from assms have "\<forall>folder\<in>set (folders self). rglob fs folder q = ([], None)
      \<and> (verbose \<longrightarrow> (\<exists>rel. relative_to_root folder (root self) = Inr rel))"
    by blast
  from scan_folders_no_files[OF this] assms(2)
  have "fst (collect_rows fs q regex_info require_match verbose self) = Inr []"
    by (simp add: collect_rows_def)
  then show ?thesis
    by (cases "collect_rows fs q regex_info require_match verbose self") (simp add: query_def)
qed

text \<open>
  C5. The claim: a query that keeps no row, in particular one whose pattern matches no
  file, returns the empty table without columns and raises nothing. The code differs
  when \<^verbatim>\<open>verbose\<close> is set: with the root \<^verbatim>\<open>/data\<close> and the registered folder
  \<^verbatim>\<open>/other\<close> (absolute, an existing directory outside the root, which the constructor
  accepts), no file matches \<^verbatim>\<open>*.tif\<close>, and the call with \<^verbatim>\<open>verbose=True\<close> prints its
  two header lines and raises \<^verbatim>\<open>ValueError\<close>, from \<^verbatim>\<open>folder.relative_to(self.root)\<close>
  on line 94, instead of returning the empty table.
\<close>

theorem query_no_files_verbose_raises:
  "init demo_env [other_dir] (Some (Single data_dir))
     = (None, \<lparr>root = RootPath data_dir, folders = [other_dir]\<rparr>, [])
   \<and> matched_files demo_env ''*.tif'' \<lparr>root = RootPath data_dir, folders = [other_dir]\<rparr> = []
   \<and> query demo_env ''*.tif'' [] True True \<lparr>root = RootPath data_dir, folders = [other_dir]\<rparr>
       = (Inl ValueError, \<lparr>root = RootPath data_dir, folders = [other_dir]\<rparr>,
          [Searching ''*.tif'', InRoot (RootPath data_dir)])
   \<and> (Inl ValueError :: error + dataframe) \<noteq> Inr empty_frame"
  by (simp add: init_def add_folders_def set_root_def resolve_def query_def collect_rows_def
      matched_files_def relative_to_root_def relative_to_def demo_defs)

subsection \<open>Every kept row has a file name\<close>









subsection \<open>The table of the kept rows\<close>












end
